theory Spec2Isabelle
  imports
    Complex_Main
    "HOL-Library.Char_ord"
    "HOL-Library.List_Lexorder"
    "HOL-Library.Product_Lexorder"
begin

section \<open>Data model\<close>

text \<open>
  The dashboard holds its project records in a pandas frame built from the rows of the
  graph query. A numeric cell of that frame is a number or missing: a column of numbers
  with gaps is a float column whose gaps are NaN, which is \<open>None\<close> here. A column in
  which no record carries a number is not a numeric column and is outside the model.
  Numbers are modelled as exact reals, so the rounding of the 64-bit floats is not part
  of the model. A text cell is a string or missing.
\<close>

type_synonym cell = "real option"

record metrics =
  total_budget :: cell
  journal_articles :: cell
  conference_papers :: cell
  book_chapters :: cell
  technology_demonstrators :: cell

record project_record = metrics +
  domain :: "string option"
  programme :: "string option"
  project_name :: "string option"
  status :: "int option"

text \<open>
  A row of the frame \<open>grouped\<close> before the cost columns are added. The programme level
  keeps the \<open>domain\<close> key column next to \<open>name\<close>; the other levels have no such column,
  which is \<open>None\<close> here.
\<close>

record rollup = metrics +
  name :: "string option"
  group_domain :: "string option"

record kpi_row = rollup +
  journal_articles_cost :: cell
  conference_papers_cost :: cell
  book_chapters_cost :: cell
  technology_demonstrators_cost :: cell
  total_kpis :: cell
  cost_per_kpi :: cell

section \<open>Frame operations used by the source\<close>

text \<open>\<open>Series.sum()\<close>: missing values are skipped, the sum of nothing is 0.\<close>

definition nan_as_zero :: "cell \<Rightarrow> real" where
  "nan_as_zero c = (case c of None \<Rightarrow> 0 | Some v \<Rightarrow> v)"

definition skipna_sum :: "cell list \<Rightarrow> real" where
  "skipna_sum cs = sum_list (map nan_as_zero cs)"

text \<open>
  \<open>df.groupby(keys)\<close>: rows whose key is missing are dropped, every other row joins the
  group of its key (a new group at the end when the key is new), and the groups come out
  sorted by key, which is the default \<open>sort=True\<close>.
\<close>

fun add_row :: "'k \<Rightarrow> 'r \<Rightarrow> ('k \<times> 'r list) list \<Rightarrow> ('k \<times> 'r list) list" where
  "add_row k r [] = [(k, [r])]"
| "add_row k r ((k', rs) # gs) =
     (if k = k' then (k', rs @ [r]) # gs else (k', rs) # add_row k r gs)"

definition collect_groups :: "('r \<Rightarrow> 'k option) \<Rightarrow> 'r list \<Rightarrow> ('k \<times> 'r list) list" where
  "collect_groups key df =
     foldl (\<lambda>gs r. case key r of None \<Rightarrow> gs | Some k \<Rightarrow> add_row k r gs) [] df"

definition groupby :: "('r \<Rightarrow> ('k::linorder) option) \<Rightarrow> 'r list \<Rightarrow> ('k \<times> 'r list) list" where
  "groupby key df = sort_key fst (collect_groups key df)"

text \<open>The key of \<open>groupby(['domain', 'programme'])\<close>: missing when either part is.\<close>

definition domain_programme :: "project_record \<Rightarrow> (string \<times> string) option" where
  "domain_programme r =
     (case domain r of
        None \<Rightarrow> None
      | Some d \<Rightarrow> (case programme r of None \<Rightarrow> None | Some p \<Rightarrow> Some (d, p)))"

text \<open>\<open>.agg({... : 'sum'})\<close> over the five numeric columns of one group.\<close>

definition agg_sum :: "project_record list \<Rightarrow> metrics" where
  "agg_sum rs =
     \<lparr> total_budget = Some (skipna_sum (map total_budget rs)),
       journal_articles = Some (skipna_sum (map journal_articles rs)),
       conference_papers = Some (skipna_sum (map conference_papers rs)),
       book_chapters = Some (skipna_sum (map book_chapters rs)),
       technology_demonstrators = Some (skipna_sum (map technology_demonstrators rs)) \<rparr>"

definition mk_rollup :: "string option \<Rightarrow> string option \<Rightarrow> 'a metrics_scheme \<Rightarrow> rollup" where
  "mk_rollup n d m =
     \<lparr> total_budget = total_budget m,
       journal_articles = journal_articles m,
       conference_papers = conference_papers m,
       book_chapters = book_chapters m,
       technology_demonstrators = technology_demonstrators m,
       name = n,
       group_domain = d \<rparr>"

text \<open>\<open>df['domain'].unique()\<close>: the distinct values in order of first appearance.\<close>

definition unique :: "'a list \<Rightarrow> 'a list" where
  "unique xs = rev (remdups (rev xs))"

section \<open>process_kpi_data\<close>

text \<open>
  \<open>lambda x: x['total_budget'] / x[kpi] if x[kpi] > 0 else 0\<close>. A missing count is
  not greater than 0; a missing budget over a positive count is missing.
  \<open>grouped.apply(..., axis=1)\<close> is the map of this function over the rows of the
  frame; what pandas does with a frame that has no rows at all is not part of the model.
\<close>

fun cost_ratio :: "cell \<Rightarrow> cell \<Rightarrow> cell" where
  "cost_ratio b None = Some 0"
| "cost_ratio b (Some k) =
     (if k > 0 then (case b of None \<Rightarrow> None | Some v \<Rightarrow> Some (v / k)) else Some 0)"

definition kpi_costs :: "rollup \<Rightarrow> kpi_row" where
  "kpi_costs g =
     (let tk = Some (skipna_sum [journal_articles g, conference_papers g,
                                 book_chapters g, technology_demonstrators g])
      in \<lparr> total_budget = total_budget g,
           journal_articles = journal_articles g,
           conference_papers = conference_papers g,
           book_chapters = book_chapters g,
           technology_demonstrators = technology_demonstrators g,
           name = name g,
           group_domain = group_domain g,
           journal_articles_cost = cost_ratio (total_budget g) (journal_articles g),
           conference_papers_cost = cost_ratio (total_budget g) (conference_papers g),
           book_chapters_cost = cost_ratio (total_budget g) (book_chapters g),
           technology_demonstrators_cost =
             cost_ratio (total_budget g) (technology_demonstrators g),
           total_kpis = tk,
           cost_per_kpi = cost_ratio (total_budget g) tk \<rparr>)"

definition process_kpi_data :: "project_record list \<Rightarrow> string \<Rightarrow> kpi_row list" where
  "process_kpi_data df level =
     (let grouped =
        (if level = ''domain'' then
           map (\<lambda>(d, rs). mk_rollup (Some d) None (agg_sum rs)) (groupby domain df)
         else if level = ''programme'' then
           map (\<lambda>((d, p), rs). mk_rollup (Some p) (Some d) (agg_sum rs))
             (groupby domain_programme df)
         else
           map (\<lambda>r. mk_rollup (project_name r) None r) df)
      in map kpi_costs grouped)"

section \<open>The scores of create_domain_performance_chart\<close>

text \<open>
  The sums of a frame are numpy scalars, whose division does not raise: a zero divisor
  gives NaN for a zero dividend and an infinity otherwise.
\<close>

datatype fval = Fin real | PInf | NInf | NaN

definition np_div :: "real \<Rightarrow> real \<Rightarrow> fval" where
  "np_div a b =
     (if b \<noteq> 0 then Fin (a / b)
      else if a = 0 then NaN
      else if a > 0 then PInf else NInf)"

fun fneg :: "fval \<Rightarrow> fval" where
  "fneg (Fin a) = Fin (- a)"
| "fneg PInf = NInf"
| "fneg NInf = PInf"
| "fneg NaN = NaN"

fun fmul :: "fval \<Rightarrow> fval \<Rightarrow> fval" where
  "fmul (Fin a) (Fin b) = Fin (a * b)"
| "fmul NaN y = NaN"
| "fmul x NaN = NaN"
| "fmul (Fin a) y = (if a = 0 then NaN else if a > 0 then y else fneg y)"
| "fmul x (Fin b) = (if b = 0 then NaN else if b > 0 then x else fneg x)"
| "fmul PInf y = y"
| "fmul NInf y = fneg y"

fun fadd :: "fval \<Rightarrow> fval \<Rightarrow> fval" where
  "fadd (Fin a) (Fin b) = Fin (a + b)"
| "fadd NaN y = NaN"
| "fadd x NaN = NaN"
| "fadd (Fin a) y = y"
| "fadd x (Fin b) = x"
| "fadd PInf PInf = PInf"
| "fadd NInf NInf = NInf"
| "fadd PInf NInf = NaN"
| "fadd NInf PInf = NaN"

record domain_metric =
  dm_domain :: "string option"
  performance_score :: fval
  budget_score :: fval
  activity_score :: fval
  output_score :: fval

text \<open>The sum of the four output columns of a frame.\<close>

definition output_sum :: "project_record list \<Rightarrow> real" where
  "output_sum rs =
     skipna_sum (map journal_articles rs) + skipna_sum (map conference_papers rs)
     + skipna_sum (map book_chapters rs) + skipna_sum (map technology_demonstrators rs)"

text \<open>
  The body of the loop over \<open>df['domain'].unique()\<close>. The comparison
  \<open>df['domain'] == domain\<close> is false in every row when \<open>domain\<close> is the missing value.
\<close>

definition score_domain :: "project_record list \<Rightarrow> string option \<Rightarrow> domain_metric" where
  "score_domain df d =
     (let domain_data = filter (\<lambda>r. d \<noteq> None \<and> domain r = d) df;
          budget = skipna_sum (map total_budget domain_data);
          active_projects = length (filter (\<lambda>r. status r = Some 1) domain_data);
          total_projects = length domain_data;
          research_output = output_sum domain_data;
          budget_weight = Fin (3 / 10);
          activity_weight = Fin (3 / 10);
          output_weight = Fin (4 / 10);
          bs = fmul (np_div budget (skipna_sum (map total_budget df))) (Fin 100);
          as = (if total_projects > 0
                then Fin (real active_projects / real total_projects * 100) else Fin 0);
          os = (if research_output > 0
                then fmul (np_div research_output (output_sum df)) (Fin 100) else Fin 0)
      in \<lparr> dm_domain = d,
           performance_score =
             fadd (fadd (fmul bs budget_weight) (fmul as activity_weight))
                  (fmul os output_weight),
           budget_score = bs,
           activity_score = as,
           output_score = os \<rparr>)"

definition domain_metrics :: "project_record list \<Rightarrow> domain_metric list" where
  "domain_metrics df = map (score_domain df) (unique (map domain df))"

section \<open>Notions used to state the properties\<close>

text \<open>The rows of a frame that carry a given key.\<close>

definition members :: "('r \<Rightarrow> 'k option) \<Rightarrow> 'r list \<Rightarrow> 'k \<Rightarrow> 'r list" where
  "members key df k = filter (\<lambda>r. key r = Some k) df"

text \<open>A record whose domain is present.\<close>

definition has_domain :: "project_record \<Rightarrow> bool" where
  "has_domain r = (domain r \<noteq> None)"

text \<open>A record in which every missing budget or count has been replaced by 0.\<close>

definition zero_filled :: "project_record \<Rightarrow> project_record" where
  "zero_filled r =
     r\<lparr> total_budget := Some (nan_as_zero (total_budget r)),
        journal_articles := Some (nan_as_zero (journal_articles r)),
        conference_papers := Some (nan_as_zero (conference_papers r)),
        book_chapters := Some (nan_as_zero (book_chapters r)),
        technology_demonstrators := Some (nan_as_zero (technology_demonstrators r)) \<rparr>"

text \<open>The columns that process_kpi_data derives: the four costs, the total and its cost.\<close>

definition derived :: "kpi_row \<Rightarrow> cell \<times> cell \<times> cell \<times> cell \<times> cell \<times> cell" where
  "derived g =
     (journal_articles_cost g, conference_papers_cost g, book_chapters_cost g,
      technology_demonstrators_cost g, total_kpis g, cost_per_kpi g)"

text \<open>
  The zero-denominator policy as the specification words it: the cost is the budget
  divided by the count when the count is greater than 0, and 0 otherwise. The quotient of
  a missing budget is missing.
\<close>

definition follows_policy :: "cell \<Rightarrow> cell \<Rightarrow> cell \<Rightarrow> bool" where
  "follows_policy cost b m =
     (case m of
        None \<Rightarrow> cost = Some 0
      | Some v \<Rightarrow> if v > 0 then cost = map_option (\<lambda>x. x / v) b else cost = Some 0)"

definition nonneg :: "cell \<Rightarrow> bool" where
  "nonneg c = (case c of None \<Rightarrow> True | Some v \<Rightarrow> 0 \<le> v)"

definition nonneg_record :: "project_record \<Rightarrow> bool" where
  "nonneg_record r =
     (nonneg (total_budget r) \<and> nonneg (journal_articles r) \<and> nonneg (conference_papers r)
      \<and> nonneg (book_chapters r) \<and> nonneg (technology_demonstrators r))"

section \<open>Example inputs\<close>

definition mk_record ::
  "string option \<Rightarrow> string option \<Rightarrow> string option \<Rightarrow> int option \<Rightarrow>
   cell \<Rightarrow> cell \<Rightarrow> cell \<Rightarrow> cell \<Rightarrow> cell \<Rightarrow> project_record" where
  "mk_record d p n s b ja cp bc td =
     \<lparr> total_budget = b, journal_articles = ja, conference_papers = cp,
       book_chapters = bc, technology_demonstrators = td,
       domain = d, programme = p, project_name = n, status = s \<rparr>"

text \<open>The two records of the specification's example scenario.\<close>

definition record_A :: project_record where
  "record_A = mk_record (Some ''AI'') (Some ''NLP'') (Some ''A'') (Some 1)
                (Some 100) (Some 2) (Some 0) (Some 0) (Some 0)"

definition record_B :: project_record where
  "record_B = mk_record (Some ''AI'') (Some ''NLP'') (Some ''B'') (Some 0)
                (Some 50) (Some 0) (Some 1) (Some 0) (Some 0)"

definition example_records :: "project_record list" where
  "example_records = [record_A, record_B]"

text \<open>A frame whose domains are not in alphabetical order.\<close>

definition unsorted_records :: "project_record list" where
  "unsorted_records =
     [mk_record (Some ''Water'') (Some ''Dams'') (Some ''W1'') (Some 1)
        (Some 10) (Some 1) (Some 0) (Some 0) (Some 0),
      mk_record (Some ''Energy'') (Some ''Solar'') (Some ''E1'') (Some 1)
        (Some 20) (Some 0) (Some 1) (Some 0) (Some 0),
      mk_record (Some ''Water'') (Some ''Canals'') (Some ''W2'') (Some 0)
        (Some 30) (Some 0) (Some 0) (Some 1) (Some 0)]"

text \<open>Two programmes of the same name in different domains.\<close>

definition same_name_records :: "project_record list" where
  "same_name_records =
     [mk_record (Some ''Energy'') (Some ''Storage'') (Some ''E1'') (Some 1)
        (Some 20) (Some 1) (Some 0) (Some 0) (Some 0),
      mk_record (Some ''Water'') (Some ''Storage'') (Some ''W1'') (Some 1)
        (Some 30) (Some 0) (Some 2) (Some 0) (Some 0),
      mk_record (Some ''Energy'') (Some ''Storage'') (Some ''E2'') (Some 0)
        (Some 5) (Some 0) (Some 0) (Some 0) (Some 1)]"

text \<open>A record without a programme, a record without a domain and a complete one.\<close>

definition missing_key_records :: "project_record list" where
  "missing_key_records =
     [mk_record (Some ''AI'') None (Some ''P1'') (Some 1)
        (Some 100) (Some 1) (Some 0) (Some 0) (Some 0),
      mk_record None (Some ''NLP'') (Some ''P2'') (Some 1)
        (Some 5) (Some 0) (Some 0) (Some 0) (Some 0),
      mk_record (Some ''AI'') (Some ''NLP'') (Some ''P3'') (Some 1)
        (Some 7) (Some 0) (Some 1) (Some 0) (Some 0)]"

text \<open>A project with two journal articles whose budget is missing, and a funded one.\<close>

definition missing_budget_records :: "project_record list" where
  "missing_budget_records =
     [mk_record (Some ''AI'') (Some ''NLP'') (Some ''P1'') (Some 1)
        None (Some 2) (Some 0) (Some 0) (Some 0),
      mk_record (Some ''AI'') (Some ''NLP'') (Some ''P2'') (Some 1)
        (Some 30) (Some 3) (Some 0) (Some 0) (Some 0)]"

text \<open>Projects with outputs and no budget at all: the total budget of the frame is 0.\<close>

definition unfunded_records :: "project_record list" where
  "unfunded_records =
     [mk_record (Some ''AI'') (Some ''NLP'') (Some ''P1'') (Some 1)
        (Some 0) (Some 2) (Some 0) (Some 0) (Some 0)]"

definition unfunded_domains :: "project_record list" where
  "unfunded_domains =
     [mk_record (Some ''AI'') (Some ''NLP'') (Some ''P1'') (Some 1)
        (Some 0) (Some 1) (Some 0) (Some 0) (Some 0),
      mk_record (Some ''Water'') (Some ''Dams'') (Some ''P2'') (Some 0)
        (Some 0) (Some 0) (Some 3) (Some 0) (Some 0)]"

text \<open>Projects of one domain with missing counts, every budget present.\<close>

definition missing_metric_records :: "project_record list" where
  "missing_metric_records =
     [mk_record (Some ''AI'') (Some ''NLP'') (Some ''P1'') (Some 1)
        (Some 90) (Some 3) None (Some 0) None,
      mk_record (Some ''AI'') (Some ''Vision'') (Some ''P2'') (Some 0)
        (Some 10) None (Some 1) None (Some 2)]"

text \<open>A funded project without any output.\<close>

definition idle_records :: "project_record list" where
  "idle_records =
     [mk_record (Some ''AI'') (Some ''NLP'') (Some ''P1'') (Some 1)
        (Some 40) (Some 0) (Some 0) (Some 0) (Some 0)]"

text \<open>The row of the example scenario at the domain level.\<close>

definition example_row :: kpi_row where
  "example_row =
     \<lparr> total_budget = Some 150, journal_articles = Some 2, conference_papers = Some 1,
       book_chapters = Some 0, technology_demonstrators = Some 0,
       name = Some ''AI'', group_domain = None,
       journal_articles_cost = Some 75, conference_papers_cost = Some 150,
       book_chapters_cost = Some 0, technology_demonstrators_cost = Some 0,
       total_kpis = Some 3, cost_per_kpi = Some 50 \<rparr>"

section \<open>Facts about the frame operations\<close>

lemma collect_groups_Nil: "collect_groups key [] = []"
  by (simp add: collect_groups_def)

lemma collect_groups_snoc:
  "collect_groups key (df @ [r]) =
     (case key r of None \<Rightarrow> collect_groups key df
      | Some k \<Rightarrow> add_row k r (collect_groups key df))"
  by (cases "key r") (simp_all add: collect_groups_def)

lemma map_of_add_row:
  "map_of (add_row k r gs) k' =
     (if k' = k then Some ((case map_of gs k of None \<Rightarrow> [] | Some rs \<Rightarrow> rs) @ [r])
      else map_of gs k')"
  by (induction gs) auto

lemma map_fst_add_row:
  "map fst (add_row k r gs) = (if k \<in> set (map fst gs) then map fst gs else map fst gs @ [k])"
  by (induction gs) (force split: if_splits)+

lemma keys_add_row: "fst ` set (add_row k r gs) = insert k (fst ` set gs)"
  using map_fst_add_row [of k r gs, THEN arg_cong, of set] by (auto split: if_splits)

lemma distinct_add_row:
  "distinct (map fst gs) \<Longrightarrow> distinct (map fst (add_row k r gs))"
  by (induction gs) (auto simp: keys_add_row)

lemma distinct_collect_groups: "distinct (map fst (collect_groups key df))"
  by (induction df rule: rev_induct)
     (auto simp: collect_groups_Nil collect_groups_snoc distinct_add_row split: option.splits)

lemma map_of_collect_groups:
  "map_of (collect_groups key df) k =
     (if members key df k = [] then None else Some (members key df k))"
proof (induction df arbitrary: k rule: rev_induct)
  case Nil
  show ?case by (simp add: collect_groups_Nil members_def)
next
  case (snoc r df)
  show ?case
  proof (cases "key r")
    case None
    then show ?thesis using snoc by (simp add: collect_groups_snoc members_def)
  next
    case (Some k')
    then show ?thesis using snoc
      by (simp add: collect_groups_snoc members_def map_of_add_row)
  qed
qed

lemma keys_collect_groups:
  "fst ` set (collect_groups key df) = {k. Some k \<in> key ` set df}"
  by (induction df rule: rev_induct)
     (auto simp: collect_groups_Nil collect_groups_snoc keys_add_row split: option.splits)

lemma collect_groups_member:
  assumes "(k, rs) \<in> set (collect_groups key df)"
  shows "rs = members key df k"
proof -
  have "map_of (collect_groups key df) k = Some rs"
    using assms distinct_collect_groups [of key df] by (simp add: map_of_eq_Some_iff)
  then show ?thesis
    by (simp add: map_of_collect_groups split: if_splits)
qed

lemma groupby_keys:
  "map fst (groupby key df) = sorted_list_of_set {k. Some k \<in> key ` set df}"
proof -
  let ?ks = "map fst (groupby key df)"
  have s: "sorted ?ks"
    by (simp add: groupby_def)
  have d: "distinct ?ks"
    using distinct_collect_groups [of key df] by (simp add: groupby_def distinct_map)
  have "set ?ks = {k. Some k \<in> key ` set df}"
    using keys_collect_groups [of key df] by (simp add: groupby_def)
  moreover have "sorted_list_of_set (set ?ks) = ?ks"
    using s d by (rule sorted_list_of_set.idem_if_sorted_distinct)
  ultimately show ?thesis by simp
qed

lemma groupby_eq:
  "groupby key df =
     map (\<lambda>k. (k, members key df k)) (sorted_list_of_set {k. Some k \<in> key ` set df})"
proof -
  have "\<And>p. p \<in> set (groupby key df) \<Longrightarrow> p = (fst p, members key df (fst p))"
    using collect_groups_member [of _ _ key df]
    by (auto simp: groupby_def) 
  then have "map (\<lambda>p. (fst p, members key df (fst p))) (groupby key df) = groupby key df"
    by (simp add: map_idI)
  then have "groupby key df = map (\<lambda>k. (k, members key df k)) (map fst (groupby key df))"
    by (simp add: comp_def)
  then show ?thesis by (simp only: groupby_keys)
qed

section \<open>Facts about process_kpi_data\<close>

lemma kpi_costs_sel [simp]:
  "total_budget (kpi_costs g) = total_budget g"
  "journal_articles (kpi_costs g) = journal_articles g"
  "conference_papers (kpi_costs g) = conference_papers g"
  "book_chapters (kpi_costs g) = book_chapters g"
  "technology_demonstrators (kpi_costs g) = technology_demonstrators g"
  "name (kpi_costs g) = name g"
  "group_domain (kpi_costs g) = group_domain g"
  by (simp_all add: kpi_costs_def Let_def)

lemma kpi_costs_derived:
  "journal_articles_cost (kpi_costs g) = cost_ratio (total_budget g) (journal_articles g)"
  "conference_papers_cost (kpi_costs g) = cost_ratio (total_budget g) (conference_papers g)"
  "book_chapters_cost (kpi_costs g) = cost_ratio (total_budget g) (book_chapters g)"
  "technology_demonstrators_cost (kpi_costs g) =
     cost_ratio (total_budget g) (technology_demonstrators g)"
  "total_kpis (kpi_costs g) =
     Some (nan_as_zero (journal_articles g) + nan_as_zero (conference_papers g)
           + nan_as_zero (book_chapters g) + nan_as_zero (technology_demonstrators g))"
  "cost_per_kpi (kpi_costs g) = cost_ratio (total_budget g) (total_kpis (kpi_costs g))"
  by (simp_all add: kpi_costs_def Let_def skipna_sum_def)

lemma mk_rollup_sel [simp]:
  "total_budget (mk_rollup n d m) = total_budget m"
  "journal_articles (mk_rollup n d m) = journal_articles m"
  "conference_papers (mk_rollup n d m) = conference_papers m"
  "book_chapters (mk_rollup n d m) = book_chapters m"
  "technology_demonstrators (mk_rollup n d m) = technology_demonstrators m"
  "name (mk_rollup n d m) = n"
  "group_domain (mk_rollup n d m) = d"
  by (simp_all add: mk_rollup_def)

lemma agg_sum_sel [simp]:
  "total_budget (agg_sum rs) = Some (skipna_sum (map total_budget rs))"
  "journal_articles (agg_sum rs) = Some (skipna_sum (map journal_articles rs))"
  "conference_papers (agg_sum rs) = Some (skipna_sum (map conference_papers rs))"
  "book_chapters (agg_sum rs) = Some (skipna_sum (map book_chapters rs))"
  "technology_demonstrators (agg_sum rs) = Some (skipna_sum (map technology_demonstrators rs))"
  by (simp_all add: agg_sum_def)

lemma nan_as_zero_Some [simp]: "nan_as_zero (Some v) = v"
  by (simp add: nan_as_zero_def)

lemma cost_ratio_policy: "follows_policy (cost_ratio b m) b m"
  by (cases m; cases b) (simp_all add: follows_policy_def)

lemma process_rows:
  assumes "g \<in> set (process_kpi_data df level)"
  obtains h where "g = kpi_costs h"
  using assms by (auto simp: process_kpi_data_def Let_def)

lemma process_domain:
  "process_kpi_data df ''domain'' =
     map (\<lambda>d. kpi_costs (mk_rollup (Some d) None (agg_sum (members domain df d))))
       (sorted_list_of_set {d. Some d \<in> domain ` set df})"
  by (simp add: process_kpi_data_def groupby_eq comp_def)

lemma process_programme:
  "process_kpi_data df ''programme'' =
     map (\<lambda>(d, p). kpi_costs (mk_rollup (Some p) (Some d)
                       (agg_sum (members domain_programme df (d, p)))))
       (sorted_list_of_set {k. Some k \<in> domain_programme ` set df})"
  by (simp add: process_kpi_data_def groupby_eq comp_def case_prod_unfold)

lemma process_project:
  "level \<noteq> ''domain'' \<Longrightarrow> level \<noteq> ''programme'' \<Longrightarrow>
   process_kpi_data df level = map (\<lambda>r. kpi_costs (mk_rollup (project_name r) None r)) df"
  by (simp add: process_kpi_data_def comp_def)

lemma domain_programme_eq_Some:
  "domain_programme r = Some (d, p) \<longleftrightarrow> domain r = Some d \<and> programme r = Some p"
  by (simp add: domain_programme_def split: option.splits)

lemma domain_programme_eq_None:
  "domain_programme r = None \<longleftrightarrow> domain r = None \<or> programme r = None"
  by (simp add: domain_programme_def split: option.splits)

subsection \<open>Sums over the groups\<close>

lemma sum_add_row:
  "sum_list (map (\<lambda>g. sum_list (map f (snd g))) (add_row k r gs))
     = sum_list (map (\<lambda>g. sum_list (map f (snd g))) gs) + (f r :: real)"
  by (induction gs) auto

lemma sum_collect_groups:
  "sum_list (map (\<lambda>g. sum_list (map f (snd g))) (collect_groups key df))
     = (sum_list (map f (filter (\<lambda>r. key r \<noteq> None) df)) :: real)"
proof (induction df rule: rev_induct)
  case Nil
  show ?case by (simp add: collect_groups_Nil)
next
  case (snoc r df)
  then show ?case
    by (cases "key r") (simp_all add: collect_groups_snoc sum_add_row)
qed

lemma sum_insort_key:
  "sum_list (map h (insort_key f x xs)) = h x + (sum_list (map h xs) :: real)"
  by (induction xs) auto

lemma sum_sort_key:
  "sum_list (map h (sort_key f xs)) = (sum_list (map h xs) :: real)"
  by (induction xs) (auto simp: sum_insort_key)

lemma sum_groupby:
  "sum_list (map (\<lambda>g. sum_list (map f (snd g))) (groupby key df))
     = (sum_list (map f (filter (\<lambda>r. key r \<noteq> None) df)) :: real)"
  by (simp add: groupby_def sum_sort_key sum_collect_groups)

lemma budget_sum_grouped:
  "skipna_sum (map total_budget
      (map (\<lambda>g. kpi_costs (mk_rollup (n g) (d g) (agg_sum (snd g)))) (groupby key df)))
   = skipna_sum (map total_budget (filter (\<lambda>r. key r \<noteq> None) df))"
  using sum_groupby [of "\<lambda>r. nan_as_zero (total_budget r)" key df]
  by (simp add: skipna_sum_def comp_def nan_as_zero_def)

subsection \<open>Costs\<close>

lemma cost_ratio_mono:
  assumes "0 \<le> b" and "0 < m" and "m \<le> t"
  shows "\<exists>ck c. cost_ratio (Some b) (Some t) = Some ck \<and> cost_ratio (Some b) (Some m) = Some c \<and> ck \<le> c"
  using assms by (simp add: frac_le)

lemma nonneg_nan_as_zero: "nonneg c \<Longrightarrow> 0 \<le> nan_as_zero c"
  by (simp add: nonneg_def nan_as_zero_def split: option.splits)

lemma cost_ratio_fill: "cost_ratio b (Some (nan_as_zero m)) = cost_ratio b m"
  by (cases m) (simp_all add: nan_as_zero_def)

subsection \<open>Zero-filled records\<close>

lemma zero_filled_keys [simp]:
  "domain (zero_filled r) = domain r"
  "programme (zero_filled r) = programme r"
  "project_name (zero_filled r) = project_name r"
  "domain_programme (zero_filled r) = domain_programme r"
  by (simp_all add: zero_filled_def domain_programme_def split: option.splits)

lemma zero_filled_cells [simp]:
  "total_budget (zero_filled r) = Some (nan_as_zero (total_budget r))"
  "journal_articles (zero_filled r) = Some (nan_as_zero (journal_articles r))"
  "conference_papers (zero_filled r) = Some (nan_as_zero (conference_papers r))"
  "book_chapters (zero_filled r) = Some (nan_as_zero (book_chapters r))"
  "technology_demonstrators (zero_filled r) = Some (nan_as_zero (technology_demonstrators r))"
  by (simp_all add: zero_filled_def)

lemma agg_sum_zero_filled: "agg_sum (map zero_filled rs) = agg_sum rs"
  by (simp add: agg_sum_def skipna_sum_def comp_def)

lemma members_zero_filled:
  assumes "\<And>r. key (zero_filled r) = key r"
  shows "members key (map zero_filled df) k = map zero_filled (members key df k)"
  by (simp add: members_def filter_map comp_def assms)

lemma keys_zero_filled:
  assumes "\<And>r. key (zero_filled r) = key r"
  shows "key ` set (map zero_filled df) = key ` set df"
  by (simp add: image_image assms)

lemma derived_zero_filled:
  assumes "total_budget r \<noteq> None"
  shows "derived (kpi_costs (mk_rollup n d (zero_filled r))) = derived (kpi_costs (mk_rollup n d r))"
proof -
  obtain b where b: "total_budget r = Some b"
    using assms by auto
  show ?thesis
    by (simp only: derived_def kpi_costs_derived mk_rollup_sel zero_filled_cells b
        nan_as_zero_Some cost_ratio_fill)
qed

subsection \<open>Scores\<close>

text \<open>
  When the budgets of the frame add up to more than 0 and no budget or count is negative,
  every score is a number between 0 and 100.
\<close>

lemma skipna_sum_nonneg:
  "(\<And>r. r \<in> set df \<Longrightarrow> nonneg (f r)) \<Longrightarrow> 0 \<le> skipna_sum (map f df)"
  by (induction df) (simp_all add: skipna_sum_def nonneg_nan_as_zero)

lemma skipna_sum_filter_le:
  "(\<And>r. r \<in> set df \<Longrightarrow> nonneg (f r)) \<Longrightarrow>
   skipna_sum (map f (filter P df)) \<le> skipna_sum (map f df)"
proof (induction df)
  case Nil
  show ?case by (simp add: skipna_sum_def)
next
  case (Cons r df)
  have "0 \<le> nan_as_zero (f r)"
    using Cons.prems by (simp add: nonneg_nan_as_zero)
  moreover have "skipna_sum (map f (filter P df)) \<le> skipna_sum (map f df)"
    using Cons by simp
  ultimately show ?case
    by (simp add: skipna_sum_def)
qed

lemma output_sum_filter_le:
  assumes "\<And>r. r \<in> set df \<Longrightarrow> nonneg_record r"
  shows "output_sum (filter P df) \<le> output_sum df"
  unfolding output_sum_def
  using skipna_sum_filter_le [of df journal_articles P]
    skipna_sum_filter_le [of df conference_papers P]
    skipna_sum_filter_le [of df book_chapters P]
    skipna_sum_filter_le [of df technology_demonstrators P] assms
  by (simp add: nonneg_record_def add_mono)

lemma weighted_in_range:
  fixes b a c :: real
  assumes "0 \<le> b" "b \<le> 100" "0 \<le> a" "a \<le> 100" "0 \<le> c" "c \<le> 100"
  shows "0 \<le> b * (3 / 10) + a * (3 / 10) + c * (4 / 10)"
    and "b * (3 / 10) + a * (3 / 10) + c * (4 / 10) \<le> 100"
  using assms by simp_all

lemma percent_in_range:
  fixes q :: real
  assumes "0 \<le> q" and "q \<le> 1"
  shows "0 \<le> q * 100 \<and> q * 100 \<le> 100"
  using assms by simp

lemma performance_score_in_range:
  assumes nn: "\<And>r. r \<in> set df \<Longrightarrow> nonneg_record r"
    and pos: "0 < skipna_sum (map total_budget df)"
  shows "\<exists>s. performance_score (score_domain df d) = Fin s \<and> 0 \<le> s \<and> s \<le> 100"
proof -
  let ?dd = "filter (\<lambda>r. d \<noteq> None \<and> domain r = d) df"
  define qb where "qb = skipna_sum (map total_budget ?dd) / skipna_sum (map total_budget df)"
  define qa where
    "qa = real (length (filter (\<lambda>r. status r = Some 1) ?dd)) / real (length ?dd)"
  define qo where "qo = output_sum ?dd / output_sum df"
  define as where "as = (if 0 < length ?dd then qa * 100 else 0)"
  define os where "os = (if 0 < output_sum ?dd then qo * 100 else 0)"
  have "0 \<le> skipna_sum (map total_budget ?dd)"
    using nn by (intro skipna_sum_nonneg) (simp add: nonneg_record_def)
  moreover have "skipna_sum (map total_budget ?dd) \<le> skipna_sum (map total_budget df)"
    using nn by (intro skipna_sum_filter_le) (simp add: nonneg_record_def)
  ultimately have "0 \<le> qb" and "qb \<le> 1"
    using pos by (simp_all add: qb_def)
  then have bs: "0 \<le> qb * 100" "qb * 100 \<le> 100"
    using percent_in_range by blast+
  have "length (filter (\<lambda>r. status r = Some 1) ?dd) \<le> length ?dd"
    by (rule length_filter_le)
  then have "0 \<le> qa" and "qa \<le> 1"
    by (simp_all add: qa_def divide_le_eq_1)
  then have "0 \<le> qa * 100 \<and> qa * 100 \<le> 100"
    by (rule percent_in_range)
  then have as: "0 \<le> as" "as \<le> 100"
    by (simp_all only: as_def split: if_splits) simp_all
  have le: "output_sum ?dd \<le> output_sum df"
    using nn by (rule output_sum_filter_le)
  have "0 \<le> qo * 100 \<and> qo * 100 \<le> 100" if "0 < output_sum ?dd"
  proof (rule percent_in_range)
    show "0 \<le> qo" using that le by (simp add: qo_def)
    show "qo \<le> 1" using that le by (simp add: qo_def)
  qed
  then have os: "0 \<le> os" "os \<le> 100"
    by (simp_all only: os_def split: if_splits) simp_all
  have "0 < output_sum ?dd \<Longrightarrow> output_sum df \<noteq> 0"
    using le by simp
  then have "performance_score (score_domain df d)
          = Fin (qb * 100 * (3 / 10) + as * (3 / 10) + os * (4 / 10))"
    using pos by (simp add: score_domain_def Let_def np_div_def qb_def qa_def qo_def as_def os_def)
  with weighted_in_range [OF bs as os] show ?thesis
    by blast
qed

subsection \<open>Unfolding on concrete frames\<close>

lemmas frame_defs = process_kpi_data_def groupby_def collect_groups_def agg_sum_def
  mk_rollup_def kpi_costs_def skipna_sum_def nan_as_zero_def mk_record_def domain_programme_def Let_def

lemmas score_defs = domain_metrics_def unique_def score_domain_def output_sum_def
  skipna_sum_def nan_as_zero_def np_div_def mk_record_def Let_def

section \<open>The claims\<close>

text \<open>
  Claim C1. In every row that process_kpi_data returns, at any level, each of the four
  cost columns is the budget divided by the count when the count is greater than 0 and
  0 otherwise; \<open>total_kpis\<close> is the sum of the four counts (a missing count adds
  nothing), \<open>cost_per_kpi\<close> follows the same policy with \<open>total_kpis\<close> as the
  divisor, and it is 0 whenever \<open>total_kpis\<close> is 0, whatever the budget. The function
  is total: no division by zero is ever evaluated.
\<close>

theorem cost_fields_follow_zero_denominator_policy:
  assumes "g \<in> set (process_kpi_data df level)"
  shows "follows_policy (journal_articles_cost g) (total_budget g) (journal_articles g)
       \<and> follows_policy (conference_papers_cost g) (total_budget g) (conference_papers g)
       \<and> follows_policy (book_chapters_cost g) (total_budget g) (book_chapters g)
       \<and> follows_policy (technology_demonstrators_cost g) (total_budget g)
            (technology_demonstrators g)
       \<and> total_kpis g = Some (skipna_sum [journal_articles g, conference_papers g,
                                           book_chapters g, technology_demonstrators g])
       \<and> follows_policy (cost_per_kpi g) (total_budget g) (total_kpis g)
       \<and> (total_kpis g = Some 0 \<longrightarrow> cost_per_kpi g = Some 0)"
proof -
  obtain h where g: "g = kpi_costs h"
    using assms by (rule process_rows)
  have costs:
    "follows_policy (journal_articles_cost g) (total_budget g) (journal_articles g)"
    "follows_policy (conference_papers_cost g) (total_budget g) (conference_papers g)"
    "follows_policy (book_chapters_cost g) (total_budget g) (book_chapters g)"
    "follows_policy (technology_demonstrators_cost g) (total_budget g)
       (technology_demonstrators g)"
    "follows_policy (cost_per_kpi g) (total_budget g) (total_kpis g)"
    unfolding g by (simp_all only: kpi_costs_derived(1-4,6) kpi_costs_sel cost_ratio_policy)
  have total: "total_kpis g = Some (skipna_sum [journal_articles g, conference_papers g,
                                                 book_chapters g, technology_demonstrators g])"
    unfolding g by (simp add: kpi_costs_derived skipna_sum_def)
  have "total_kpis g = Some 0 \<longrightarrow> cost_per_kpi g = Some 0"
    using costs(5) by (auto simp: follows_policy_def)
  with costs total show ?thesis by blast
qed

theorem cost_fields_follow_zero_denominator_policy_witness:
  "total_budget (hd (process_kpi_data idle_records ''project'')) = Some 40
   \<and> total_kpis (hd (process_kpi_data idle_records ''project'')) = Some 0
   \<and> cost_per_kpi (hd (process_kpi_data idle_records ''project'')) = Some 0"
proof -
  let ?g = "hd (process_kpi_data idle_records ''project'')"
  have mem: "?g \<in> set (process_kpi_data idle_records ''project'')"
    by (simp add: idle_records_def frame_defs)
  have tb: "total_budget ?g = Some 40"
    by (simp add: idle_records_def frame_defs)
  have tk: "total_kpis ?g = Some 0"
    by (simp add: idle_records_def frame_defs)
  from cost_fields_follow_zero_denominator_policy [OF mem] tk
  have "cost_per_kpi ?g = Some 0"
    by blast
  with tb tk show ?thesis
    by blast
qed

text \<open>
  Claim C2, as the source has it. The budgets of the returned rows add up to the budgets
  of the input records that the level keeps: at the domain level the records with a
  domain, at the programme level the records with both a domain and a programme, and at
  the project level (any other level) every record. Missing budgets add nothing on either
  side.
\<close>

theorem budget_sum_by_level:
  "skipna_sum (map total_budget (process_kpi_data df level)) =
     skipna_sum (map total_budget
       (filter (\<lambda>r. if level = ''domain'' then domain r \<noteq> None
                     else if level = ''programme'' then domain r \<noteq> None \<and> programme r \<noteq> None
                     else True) df))"
proof -
  have d: "process_kpi_data df ''domain''
      = map (\<lambda>g. kpi_costs (mk_rollup (Some (fst g)) None (agg_sum (snd g)))) (groupby domain df)"
    by (simp add: process_kpi_data_def case_prod_unfold)
  have p: "process_kpi_data df ''programme''
      = map (\<lambda>g. kpi_costs (mk_rollup (Some (snd (fst g))) (Some (fst (fst g))) (agg_sum (snd g))))
          (groupby domain_programme df)"
    by (simp add: process_kpi_data_def case_prod_unfold)
  show ?thesis
  proof (cases "level = ''domain''")
    case True
    then show ?thesis by (simp only: d budget_sum_grouped) simp
  next
    case nd: False
    show ?thesis
    proof (cases "level = ''programme''")
      case True
      then show ?thesis
        by (simp add: p budget_sum_grouped domain_programme_eq_None del: map_map)
    next
      case False
      with nd show ?thesis
        by (simp add: process_project comp_def)
    qed
  qed
qed

text \<open>
  The claim as stated compares every level with the records that have a domain. A record
  without a programme is lost at the programme level, and a record without a domain is
  kept at the project level.
\<close>

theorem budget_sum_counterexample:
  "skipna_sum (map total_budget (process_kpi_data missing_key_records ''programme'')) = 7
   \<and> skipna_sum (map total_budget (process_kpi_data missing_key_records ''project'')) = 112
   \<and> skipna_sum (map total_budget (filter has_domain missing_key_records)) = 107"
  by (simp add: missing_key_records_def frame_defs has_domain_def)

text \<open>
  Claim C3. The claim asks for every performance score to lie between 0 and 100 on
  non-negative input. On a frame whose budgets are all 0 the budget score is the quotient
  0 / 0, and the performance score computed from it is NaN for both domains. A total
  budget above 0 is what the bound needs, as \<open>performance_score_in_range\<close> shows.
\<close>

theorem zero_total_performance_score_is_nan:
  "map performance_score (domain_metrics unfunded_domains) = [NaN, NaN]"
  by (simp add: unfunded_domains_def score_defs)

text \<open>
  Claim C4. The claim asks for a budget score of 0 when the total budget of the frame
  is 0. The source divides by the total without a guard, so the score is NaN.
\<close>

theorem zero_total_budget_score_is_nan:
  "map budget_score (domain_metrics unfunded_records) = [NaN]"
  by (simp add: unfunded_records_def score_defs)

text \<open>
  Claim C5, as the source has it. The rows of the domain level are in ascending order of
  the domain name, one row for each distinct domain; the rows of the programme level are
  in ascending order of the pair of domain and programme. The result is a function of the
  frame alone, so equal frames give the same order.
\<close>

theorem rollups_in_ascending_key_order:
  "map name (process_kpi_data df ''domain'')
     = map Some (sorted_list_of_set {d. Some d \<in> domain ` set df})
   \<and> map (\<lambda>g. (group_domain g, name g)) (process_kpi_data df ''programme'')
     = map (\<lambda>(d, p). (Some d, Some p))
         (sorted_list_of_set {k. Some k \<in> domain_programme ` set df})"
  by (simp add: process_domain process_programme comp_def case_prod_unfold)

text \<open>
  The order of first appearance is not kept: a frame that starts with the domain Water
  gets the row of Energy first.
\<close>

theorem unsorted_input_counterexample:
  "map name (process_kpi_data unsorted_records ''domain'') = [Some ''Energy'', Some ''Water'']
   \<and> unique (map domain unsorted_records) = [Some ''Water'', Some ''Energy'']"
  by (simp add: unsorted_records_def frame_defs unique_def)

text \<open>
  Claim C6, as the source has it. Every level other than \<open>'domain'\<close> and
  \<open>'programme'\<close> runs the project branch: the result is that of the project level,
  one row for each input record.
\<close>

theorem other_levels_are_project_level:
  assumes "level \<noteq> ''domain''" and "level \<noteq> ''programme''"
  shows "process_kpi_data df level = process_kpi_data df ''project''
       \<and> map name (process_kpi_data df level) = map project_name df"
  using assms by (simp add: process_project comp_def)

theorem other_levels_are_project_level_witness:
  "process_kpi_data example_records ''region'' = process_kpi_data example_records ''project''
   \<and> map name (process_kpi_data example_records ''region'') = map project_name example_records"
proof -
  have "''region'' \<noteq> ''domain''" and "''region'' \<noteq> ''programme''"
    by simp_all
  then show ?thesis
    by (rule other_levels_are_project_level)
qed

text \<open>
  The level \<open>'region'\<close> does not fail: it returns the two project rows.
\<close>

theorem unknown_level_counterexample:
  "map name (process_kpi_data example_records ''region'') = [Some ''A'', Some ''B'']"
  by (simp add: example_records_def record_A_def record_B_def frame_defs)


text \<open>
  Two programmes called Storage, one in Energy and one in Water, give two rows.
\<close>

lemma same_name_programmes:
  "map (\<lambda>g. (group_domain g, name g, total_budget g))
     (process_kpi_data same_name_records ''programme'')
   = [(Some ''Energy'', Some ''Storage'', Some 25), (Some ''Water'', Some ''Storage'', Some 30)]"
  by (simp add: same_name_records_def frame_defs)

text \<open>
  Claim C8. The example scenario: the two records A and B of domain AI give one row at
  the domain level, with budget 150, counts 2, 1, 0, 0, the costs 75, 150, 0, 0,
  \<open>total_kpis\<close> 3 and \<open>cost_per_kpi\<close> 50; the scores of the domain are 100 for the
  budget, 50 for the activity, 100 for the output and 85 overall.
\<close>

theorem example_scenario:
  "process_kpi_data example_records ''domain'' =
     [\<lparr> total_budget = Some 150, journal_articles = Some 2, conference_papers = Some 1,
        book_chapters = Some 0, technology_demonstrators = Some 0,
        name = Some ''AI'', group_domain = None,
        journal_articles_cost = Some 75, conference_papers_cost = Some 150,
        book_chapters_cost = Some 0, technology_demonstrators_cost = Some 0,
        total_kpis = Some 3, cost_per_kpi = Some 50 \<rparr>]
   \<and> domain_metrics example_records =
     [\<lparr> dm_domain = Some ''AI'', performance_score = Fin 85, budget_score = Fin 100,
        activity_score = Fin 50, output_score = Fin 100 \<rparr>]"
proof
  show "process_kpi_data example_records ''domain'' =
     [\<lparr> total_budget = Some 150, journal_articles = Some 2, conference_papers = Some 1,
        book_chapters = Some 0, technology_demonstrators = Some 0,
        name = Some ''AI'', group_domain = None,
        journal_articles_cost = Some 75, conference_papers_cost = Some 150,
        book_chapters_cost = Some 0, technology_demonstrators_cost = Some 0,
        total_kpis = Some 3, cost_per_kpi = Some 50 \<rparr>]"
    by (simp add: example_records_def record_A_def record_B_def frame_defs)
  show "domain_metrics example_records =
     [\<lparr> dm_domain = Some ''AI'', performance_score = Fin 85, budget_score = Fin 100,
        activity_score = Fin 50, output_score = Fin 100 \<rparr>]"
    by (simp add: example_records_def record_A_def record_B_def score_defs)
qed




text \<open>
  Claim C10. In a row with a non-negative budget and non-negative counts, the cost per
  KPI is at most the cost of every metric whose count is greater than 0.
\<close>

theorem cost_per_kpi_is_lower_bound:
  assumes "g \<in> set (process_kpi_data df level)"
    and "total_budget g = Some b" and "0 \<le> b"
    and "nonneg (journal_articles g)" and "nonneg (conference_papers g)"
    and "nonneg (book_chapters g)" and "nonneg (technology_demonstrators g)"
  shows "(\<forall>m. journal_articles g = Some m \<and> 0 < m \<longrightarrow>
            (\<exists>ck c. cost_per_kpi g = Some ck \<and> journal_articles_cost g = Some c \<and> ck \<le> c))
       \<and> (\<forall>m. conference_papers g = Some m \<and> 0 < m \<longrightarrow>
            (\<exists>ck c. cost_per_kpi g = Some ck \<and> conference_papers_cost g = Some c \<and> ck \<le> c))
       \<and> (\<forall>m. book_chapters g = Some m \<and> 0 < m \<longrightarrow>
            (\<exists>ck c. cost_per_kpi g = Some ck \<and> book_chapters_cost g = Some c \<and> ck \<le> c))
       \<and> (\<forall>m. technology_demonstrators g = Some m \<and> 0 < m \<longrightarrow>
            (\<exists>ck c. cost_per_kpi g = Some ck \<and> technology_demonstrators_cost g = Some c
                     \<and> ck \<le> c))"
proof -
  obtain h where g: "g = kpi_costs h"
    using assms(1) by (rule process_rows)
  let ?t = "nan_as_zero (journal_articles h) + nan_as_zero (conference_papers h)
           + nan_as_zero (book_chapters h) + nan_as_zero (technology_demonstrators h)"
  have b: "total_budget h = Some b"
    using assms(2) by (simp add: g)
  have nn: "0 \<le> nan_as_zero (journal_articles h)" "0 \<le> nan_as_zero (conference_papers h)"
    "0 \<le> nan_as_zero (book_chapters h)" "0 \<le> nan_as_zero (technology_demonstrators h)"
    using assms(4-7) by (simp_all add: g nonneg_nan_as_zero)
  have kpi: "cost_per_kpi g = Some (if 0 < ?t then b / ?t else 0)"
    by (simp add: g kpi_costs_derived b)
  have ja: "\<exists>ck c. cost_per_kpi g = Some ck \<and> journal_articles_cost g = Some c \<and> ck \<le> c"
    if "journal_articles g = Some m" "0 < m" for m
  proof -
    have "m \<le> ?t"
      using that nn by (simp add: g nan_as_zero_def)
    then have "(if 0 < ?t then b / ?t else 0) \<le> b / m"
      using that(2) assms(3) by (simp add: frac_le)
    moreover have "journal_articles_cost g = Some (b / m)"
      using that by (simp add: g kpi_costs_derived b)
    ultimately show ?thesis
      using kpi by simp
  qed
  have cp: "\<exists>ck c. cost_per_kpi g = Some ck \<and> conference_papers_cost g = Some c \<and> ck \<le> c"
    if "conference_papers g = Some m" "0 < m" for m
  proof -
    have "m \<le> ?t"
      using that nn by (simp add: g nan_as_zero_def)
    then have "(if 0 < ?t then b / ?t else 0) \<le> b / m"
      using that(2) assms(3) by (simp add: frac_le)
    moreover have "conference_papers_cost g = Some (b / m)"
      using that by (simp add: g kpi_costs_derived b)
    ultimately show ?thesis
      using kpi by simp
  qed
  have bc: "\<exists>ck c. cost_per_kpi g = Some ck \<and> book_chapters_cost g = Some c \<and> ck \<le> c"
    if "book_chapters g = Some m" "0 < m" for m
  proof -
    have "m \<le> ?t"
      using that nn by (simp add: g nan_as_zero_def)
    then have "(if 0 < ?t then b / ?t else 0) \<le> b / m"
      using that(2) assms(3) by (simp add: frac_le)
    moreover have "book_chapters_cost g = Some (b / m)"
      using that by (simp add: g kpi_costs_derived b)
    ultimately show ?thesis
      using kpi by simp
  qed
  have td: "\<exists>ck c. cost_per_kpi g = Some ck \<and> technology_demonstrators_cost g = Some c \<and> ck \<le> c"
    if "technology_demonstrators g = Some m" "0 < m" for m
  proof -
    have "m \<le> ?t"
      using that nn by (simp add: g nan_as_zero_def)
    then have "(if 0 < ?t then b / ?t else 0) \<le> b / m"
      using that(2) assms(3) by (simp add: frac_le)
    moreover have "technology_demonstrators_cost g = Some (b / m)"
      using that by (simp add: g kpi_costs_derived b)
    ultimately show ?thesis
      using kpi by simp
  qed
  from ja cp bc td show ?thesis by blast
qed

theorem cost_per_kpi_is_lower_bound_witness:
  "example_row \<in> set (process_kpi_data example_records ''domain'')
   \<and> (\<exists>ck c. cost_per_kpi example_row = Some ck
               \<and> journal_articles_cost example_row = Some c \<and> ck \<le> c)
   \<and> (\<exists>ck c. cost_per_kpi example_row = Some ck
               \<and> conference_papers_cost example_row = Some c \<and> ck \<le> c)"
proof -
  have mem: "example_row \<in> set (process_kpi_data example_records ''domain'')"
    by (simp add: example_row_def example_records_def record_A_def record_B_def frame_defs)
  show ?thesis
    using mem cost_per_kpi_is_lower_bound [OF mem, of 150]
    by (simp add: example_row_def nonneg_def)
qed

end
